theory Spec2Isabelle
  imports Complex_Main "HOL-Library.Multiset" "HOL-Library.Product_Lexorder"
begin

section \<open>Data model\<close>

text \<open>
  Shallow embedding of \<^verbatim>\<open>functions.py\<close> (solar-energy-forecasting).

  \<^item> A timestamp is an \<open>int\<close>: the number of whole hours since 1970-01-01 00:00. The forecast
    feed stamps its samples on whole hours (\<^verbatim>\<open>dt_txt\<close> such as \<^verbatim>\<open>2024-01-01 15:00:00\<close>), and
    every later timestamp of the pipeline lies on the hourly grid. \<open>timedelta(hours=5)\<close> is 5,
    \<open>timedelta(days=8)\<close> is 192.
  \<^item> A float is a \<open>real\<close>; a cell of a float column is a \<open>real option\<close>, \<open>None\<close> being NaN
    (a missing value).
  \<^item> A DataFrame is the list of its rows, in index order; a row is a record of its columns.
  \<^item> An exception, and a \<^verbatim>\<open>return None\<close> after a printed reason, is a value of \<open>error\<close>.
\<close>

datatype error =
    InputError          \<comment> \<open>empty table: \<^verbatim>\<open>KeyError\<close> at line 44 and at line 209;
                            "Weather forecast data is not available." at lines 251-253\<close>
  | DuplicateLabels     \<comment> \<open>\<^verbatim>\<open>ValueError\<close>: reindexing (line 46) on an index with duplicate labels\<close>
  | UnsupportedRegion   \<comment> \<open>"This function currently works with US locations only.", lines 239-241\<close>
  | NonFinite           \<comment> \<open>\<^verbatim>\<open>capacity / max_ghi\<close> with \<^verbatim>\<open>max_ghi = 0\<close>: inf or nan, no real number\<close>

record forecast_item =
  dt_txt :: int
  main_temp :: real

record temp_row =
  datetime :: int
  temp :: "real option"

record calendar_row = temp_row +
  Month :: int
  Hour :: int
  Day :: int
  Year :: int

record stats_row = calendar_row +
  max_temp :: "real option"
  min_temp :: "real option"
  avg_temp :: "real option"

record hourly_row = stats_row +
  temp_diff :: "real option"

record ghi_row = hourly_row +
  ghi_forecasted :: real

record power_row = ghi_row +
  power :: real

section \<open>Calendar\<close>

text \<open>Hour of day, and midnight of the calendar day, of a timestamp.\<close>

definition dt_hour :: "int \<Rightarrow> int" where
  "dt_hour t = t mod 24"

definition midnight :: "int \<Rightarrow> int" where
  "midnight t = (t div 24) * 24"

definition is_leap :: "int \<Rightarrow> bool" where
  "is_leap y = (y mod 4 = 0 \<and> (y mod 100 \<noteq> 0 \<or> y mod 400 = 0))"

text \<open>
  Proleptic Gregorian date of a day number (days since 1970-01-01), with the day of the
  year of the March-based calendar alongside: \<open>(year, month, day, day of year)\<close>.
\<close>

definition civil_from_days :: "int \<Rightarrow> int \<times> int \<times> int \<times> int" where
  "civil_from_days n =
     (let z = n + 719468;
          era = z div 146097;
          doe = z mod 146097;
          yoe = (doe - doe div 1460 + doe div 36524 - doe div 146096) div 365;
          doy = doe - (365 * yoe + yoe div 4 - yoe div 100);
          mp = (5 * doy + 2) div 153;
          d = doy - (153 * mp + 2) div 5 + 1;
          m = (if mp < 10 then mp + 3 else mp - 9);
          y = (if m \<le> 2 then yoe + era * 400 + 1 else yoe + era * 400);
          yday = (if m \<le> 2 then doy - 305 else doy + 60 + (if is_leap y then 1 else 0))
      in (y, m, d, yday))"

definition dt_year :: "int \<Rightarrow> int" where
  "dt_year t = fst (civil_from_days (t div 24))"

definition dt_month :: "int \<Rightarrow> int" where
  "dt_month t = fst (snd (civil_from_days (t div 24)))"

definition dt_day :: "int \<Rightarrow> int" where
  "dt_day t = fst (snd (snd (civil_from_days (t div 24))))"

definition tm_yday :: "int \<Rightarrow> int" where
  "tm_yday t = snd (snd (snd (civil_from_days (t div 24))))"

section \<open>Filling missing values in a column\<close>

text \<open>
  \<^verbatim>\<open>interpolate(method='linear')\<close> with pandas' defaults: the values count as equally spaced;
  a gap between two known values is filled on the straight line between them; the gap after
  the last known value takes that value; the gap before the first known value stays missing.
  \<open>interp_gap a n xs\<close> fills \<open>xs\<close>, where \<open>a\<close> is the last known value and \<open>n\<close> missing cells
  have been passed since.
\<close>

fun interp_gap :: "real \<Rightarrow> nat \<Rightarrow> real option list \<Rightarrow> real option list" where
  "interp_gap a n [] = replicate n (Some a)"
| "interp_gap a n (None # xs) = interp_gap a (Suc n) xs"
| "interp_gap a n (Some b # xs) =
     map (\<lambda>k. Some (a + (b - a) * real k / real (Suc n))) [1..<Suc n] @ Some b # interp_gap b 0 xs"

fun interpolate_linear :: "real option list \<Rightarrow> real option list" where
  "interpolate_linear [] = []"
| "interpolate_linear (None # xs) = None # interpolate_linear xs"
| "interpolate_linear (Some a # xs) = Some a # interp_gap a 0 xs"

text \<open>\<^verbatim>\<open>fillna(method='bfill')\<close>: a missing cell takes the next known value, if there is one.\<close>

fun bfill :: "real option list \<Rightarrow> real option list" where
  "bfill [] = []"
| "bfill (Some a # xs) = Some a # bfill xs"
| "bfill (None # xs) = (case bfill xs of [] \<Rightarrow> [None] | y # ys \<Rightarrow> y # y # ys)"

text \<open>\<^verbatim>\<open>fillna(method='ffill')\<close>: a missing cell takes the last known value, if there is one.\<close>

fun ffill_from :: "real option \<Rightarrow> real option list \<Rightarrow> real option list" where
  "ffill_from prev [] = []"
| "ffill_from prev (None # xs) = prev # ffill_from prev xs"
| "ffill_from prev (Some a # xs) = Some a # ffill_from (Some a) xs"

definition ffill :: "real option list \<Rightarrow> real option list" where
  "ffill xs = ffill_from None xs"

text \<open>Writing a column of temperatures back into a table, row by row.\<close>

definition set_temp :: "temp_row list \<Rightarrow> real option list \<Rightarrow> temp_row list" where
  "set_temp df vs = map2 (\<lambda>r v. r\<lparr>temp := v\<rparr>) df vs"

section \<open>prepare_weather_data\<close>

text \<open>
  Line 46, \<^verbatim>\<open>set_index('datetime').resample('H').interpolate()\<close>: the hourly index runs from
  the earliest to the latest sample, a sample's value stands at its own hour, every other
  hour is missing, and the column is then interpolated.
\<close>

definition resample_H_interpolate :: "forecast_item list \<Rightarrow> temp_row list" where
  "resample_H_interpolate forecast_df =
     (let stamps = map dt_txt forecast_df;
          idx = [Min (set stamps) .. Max (set stamps)];
          vals = map (map_of (map (\<lambda>i. (dt_txt i, main_temp i)) forecast_df)) idx
      in map2 (\<lambda>t v. \<lparr>datetime = t, temp = v\<rparr>) idx (interpolate_linear vals))"

text \<open>Lines 42-50: the hourly table of the samples, moved from UTC to UTC-5.\<close>

definition local_hourly_df :: "forecast_item list \<Rightarrow> temp_row list" where
  "local_hourly_df weather_forecast_data =
     map (\<lambda>r. r\<lparr>datetime := datetime r - 5\<rparr>) (resample_H_interpolate weather_forecast_data)"

text \<open>
  Lines 53-58: the 8-day hourly range from the earliest (shifted) timestamp, both ends
  included, the samples reindexed onto it, and the rows before midnight of the end date kept.
\<close>

definition full_range :: "int \<Rightarrow> int list" where
  "full_range start_date = [start_date .. start_date + 192]"

definition reindex :: "temp_row list \<Rightarrow> int list \<Rightarrow> temp_row list" where
  "reindex df idx =
     map (\<lambda>t. \<lparr>datetime = t,
               temp = (case map_of (map (\<lambda>r. (datetime r, temp r)) df) t of
                         None \<Rightarrow> None | Some v \<Rightarrow> v)\<rparr>) idx"

definition forecast_df_full :: "temp_row list \<Rightarrow> temp_row list" where
  "forecast_df_full hourly =
     (let start_date = Min (set (map datetime hourly));
          end_date = start_date + 192
      in filter (\<lambda>r. datetime r < midnight end_date)
           (reindex hourly (full_range start_date)))"

text \<open>
  Lines 61-78: for each hour of the day, the rows of that hour are interpolated, filled
  backward and forward, and appended; the result is sorted by timestamp.
\<close>

definition fill_hourly_data :: "temp_row list \<Rightarrow> temp_row list" where
  "fill_hourly_data hourly_data =
     set_temp hourly_data (ffill (bfill (interpolate_linear (map temp hourly_data))))"

definition interpolated_df :: "temp_row list \<Rightarrow> temp_row list" where
  "interpolated_df df =
     sort_key datetime
       (concat (map (\<lambda>hour. fill_hourly_data (filter (\<lambda>r. dt_hour (datetime r) = hour) df))
                    [0 .. 23]))"

text \<open>Lines 81-84: the calendar columns.\<close>

definition add_calendar :: "temp_row \<Rightarrow> calendar_row" where
  "add_calendar r =
     \<lparr>datetime = datetime r, temp = temp r,
      Month = dt_month (datetime r), Hour = dt_hour (datetime r),
      Day = dt_day (datetime r), Year = dt_year (datetime r)\<rparr>"

text \<open>
  Lines 87-91: one row of statistics per calendar day, over the known temperatures of the
  day (a day without any has missing statistics), sorted by day.
\<close>

definition day_key :: "'a calendar_row_scheme \<Rightarrow> int \<times> int \<times> int" where
  "day_key r = (Year r, Month r, Day r)"

definition known :: "real option list \<Rightarrow> real list" where
  "known vs = map the (filter (\<lambda>v. v \<noteq> None) vs)"

definition agg_max :: "real option list \<Rightarrow> real option" where
  "agg_max vs = (if known vs = [] then None else Some (Max (set (known vs))))"

definition agg_min :: "real option list \<Rightarrow> real option" where
  "agg_min vs = (if known vs = [] then None else Some (Min (set (known vs))))"

definition agg_mean :: "real option list \<Rightarrow> real option" where
  "agg_mean vs =
     (if known vs = [] then None else Some (sum_list (known vs) / real (length (known vs))))"

definition day_group :: "calendar_row list \<Rightarrow> int \<times> int \<times> int \<Rightarrow> real option list" where
  "day_group df k = map temp (filter (\<lambda>r. day_key r = k) df)"

definition daily_stats ::
  "calendar_row list \<Rightarrow> ((int \<times> int \<times> int) \<times> real option \<times> real option \<times> real option) list" where
  "daily_stats df =
     map (\<lambda>k. (k, agg_max (day_group df k), agg_min (day_group df k), agg_mean (day_group df k)))
         (sort (remdups (map day_key df)))"

text \<open>
  Line 94, the inner join on the day, in the order of the left table; line 96, the
  temperature range.
\<close>

definition merge_stats ::
  "calendar_row list \<Rightarrow> ((int \<times> int \<times> int) \<times> real option \<times> real option \<times> real option) list
     \<Rightarrow> stats_row list" where
  "merge_stats df stats =
     concat (map (\<lambda>r. map (\<lambda>(k, mx, mn, av).
                             \<lparr>datetime = datetime r, temp = temp r,
                              Month = Month r, Hour = Hour r, Day = Day r, Year = Year r,
                              max_temp = mx, min_temp = mn, avg_temp = av\<rparr>)
                          (filter (\<lambda>s. fst s = day_key r) stats)) df)"

definition sub_opt :: "real option \<Rightarrow> real option \<Rightarrow> real option" where
  "sub_opt a b = (case (a, b) of (Some x, Some y) \<Rightarrow> Some (x - y) | _ \<Rightarrow> None)"

definition add_temp_diff :: "stats_row \<Rightarrow> hourly_row" where
  "add_temp_diff r =
     \<lparr>datetime = datetime r, temp = temp r,
      Month = Month r, Hour = Hour r, Day = Day r, Year = Year r,
      max_temp = max_temp r, min_temp = min_temp r, avg_temp = avg_temp r,
      temp_diff = sub_opt (max_temp r) (min_temp r)\<rparr>"

text \<open>
  Lines 46-98, the table the function returns when it does not raise: the grid is built and
  filled, the calendar columns and the daily statistics are added, and the rows from
  midnight after the start date are kept.
\<close>

definition prepared_table :: "forecast_item list \<Rightarrow> hourly_row list" where
  "prepared_table weather_forecast_data =
     (let hourly = local_hourly_df weather_forecast_data;
          start_date = Min (set (map datetime hourly));
          full = forecast_df_full hourly;
          interpolated = map add_calendar (interpolated_df full);
          merged = map add_temp_diff (merge_stats interpolated (daily_stats interpolated))
      in filter (\<lambda>r. datetime r \<ge> midnight start_date + 24) merged)"

text \<open>
  The whole function. An empty list gives a table without a \<^verbatim>\<open>datetime\<close> column, and line 44
  raises; sample timestamps that are not distinct make the reindexing of line 46 raise.
\<close>

definition prepare_weather_data :: "forecast_item list \<Rightarrow> error + hourly_row list" where
  "prepare_weather_data weather_forecast_data =
     (if weather_forecast_data = [] then Inl InputError
      else if \<not> distinct (map dt_txt weather_forecast_data) then Inl DuplicateLabels
      else Inr (prepared_table weather_forecast_data))"

section \<open>predict_ghi and calculate_power_generation\<close>

type_synonym model_features =
  "int \<times> int \<times> real option \<times> real option \<times> real option \<times> real option \<times> real option"

text \<open>Line 113: the feature columns, in the order the model takes them.\<close>

definition model_features_df :: "hourly_row \<Rightarrow> model_features" where
  "model_features_df r =
     (Month r, Hour r, temp r, max_temp r, min_temp r, avg_temp r, temp_diff r)"

text \<open>The pre-trained model is a parameter: a function from a feature row to a prediction.\<close>

definition predict_ghi :: "(model_features \<Rightarrow> real) \<Rightarrow> hourly_row list \<Rightarrow> ghi_row list" where
  "predict_ghi gbm hourly_forecast_df =
     map (\<lambda>r. \<lparr>datetime = datetime r, temp = temp r,
               Month = Month r, Hour = Hour r, Day = Day r, Year = Year r,
               max_temp = max_temp r, min_temp = min_temp r, avg_temp = avg_temp r,
               temp_diff = temp_diff r,
               ghi_forecasted = gbm (model_features_df r)\<rparr>) hourly_forecast_df"

text \<open>
  Lines 159-162, with the value of \<^verbatim>\<open>calculate_max_ghi(lat, lon)\<close> as the parameter \<open>max_ghi\<close>.
  The plot of lines 164-174 does not change the table.
\<close>

definition clamp_power :: "real \<Rightarrow> real" where
  "clamp_power x = (if x < 0 then 0 else x)"

definition calculate_power_generation ::
  "ghi_row list \<Rightarrow> real \<Rightarrow> real \<Rightarrow> error + power_row list" where
  "calculate_power_generation hourly_forecast_df capacity max_ghi =
     (if max_ghi = 0 then Inl NonFinite
      else
        let ratio = capacity / max_ghi
        in Inr (map (\<lambda>r. \<lparr>datetime = datetime r, temp = temp r,
                          Month = Month r, Hour = Hour r, Day = Day r, Year = Year r,
                          max_temp = max_temp r, min_temp = min_temp r, avg_temp = avg_temp r,
                          temp_diff = temp_diff r,
                          ghi_forecasted = ghi_forecasted r,
                          power = clamp_power (ghi_forecasted r * ratio)\<rparr>)
                    hourly_forecast_df))"

section \<open>calculate_optimal_tilt_angle\<close>

text \<open>Lines 212-217: the seasonal rule, on the latitude and the day of the year.\<close>

definition optimal_angle :: "real \<Rightarrow> int \<Rightarrow> real" where
  "optimal_angle lat day_of_year =
     (if day_of_year \<ge> 79 \<and> day_of_year \<le> 263 then lat
      else if day_of_year \<ge> 356 \<or> day_of_year \<le> 79 then lat + 15
      else max (lat - 15) 0)"

text \<open>Line 209 reads the timestamp of row 0, which an empty table does not have.\<close>

definition calculate_optimal_tilt_angle :: "power_row list \<Rightarrow> real \<Rightarrow> error + real" where
  "calculate_optimal_tilt_angle hourly_forecast_df lat =
     (case hourly_forecast_df of
        [] \<Rightarrow> Inl InputError
      | r # _ \<Rightarrow> Inr (optimal_angle lat (tm_yday (datetime r))))"

section \<open>solar_power_forecast\<close>

text \<open>
  The external collaborators are parameters: the geocoder's country, the forecast feed's
  sample list (empty when the request fails), the irradiance model and the irradiance
  ceiling. The forecast is only looked at once the region has been accepted.
\<close>

record collaborators =
  fetch_location_details :: "real \<Rightarrow> real \<Rightarrow> string"
  fetch_weather_forecast :: "real \<Rightarrow> real \<Rightarrow> string \<Rightarrow> forecast_item list"
  gbm_predict :: "model_features \<Rightarrow> real"
  calculate_max_ghi :: "real \<Rightarrow> real \<Rightarrow> real"

definition solar_power_forecast ::
  "collaborators \<Rightarrow> real \<Rightarrow> real \<Rightarrow> real \<Rightarrow> string \<Rightarrow> error + (power_row list \<times> real)" where
  "solar_power_forecast env lat lon plant_capacity api_key =
     (let country = fetch_location_details env lat lon
      in if country \<notin> set [''USA'', ''United States'', ''United States of America'']
         then Inl UnsupportedRegion
         else
           let weather_forecast_data = fetch_weather_forecast env lat lon api_key
           in if weather_forecast_data = [] then Inl InputError
              else
                case prepare_weather_data weather_forecast_data of
                  Inl e \<Rightarrow> Inl e
                | Inr prepared_data \<Rightarrow>
                    (case calculate_power_generation
                            (predict_ghi (gbm_predict env) prepared_data)
                            plant_capacity (calculate_max_ghi env lat lon) of
                       Inl e \<Rightarrow> Inl e
                     | Inr hourly_forecast_df \<Rightarrow>
                         (case calculate_optimal_tilt_angle hourly_forecast_df lat of
                            Inl e \<Rightarrow> Inl e
                          | Inr optimal_tilt_angle \<Rightarrow>
                              Inr (hourly_forecast_df, optimal_tilt_angle))))"

section \<open>Example inputs\<close>

text \<open>
  Samples and rows used below at concrete inputs. Hour 473352 is 2024-01-01 00:00 UTC, which
  is 2023-12-31 19:00 at UTC-5.
\<close>

definition samples_two_days :: "forecast_item list" where
  "samples_two_days =
     [\<lparr>dt_txt = 473352, main_temp = 10\<rparr>, \<lparr>dt_txt = 473355, main_temp = 20\<rparr>,
      \<lparr>dt_txt = 473376, main_temp = 10\<rparr>, \<lparr>dt_txt = 473400, main_temp = 20\<rparr>]"

definition samples_single :: "forecast_item list" where
  "samples_single = [\<lparr>dt_txt = 473352, main_temp = 10\<rparr>]"

text \<open>
  Two days of an hourly table from 2024-01-01 00:00, the temperatures of the first day
  known and those of the second day missing; and three rows with known temperatures, two
  of them at the same hour of the day.
\<close>

definition table_two_days :: "temp_row list" where
  "table_two_days =
     map (\<lambda>t. \<lparr>datetime = t, temp = (if t < 473376 then Some 10 else None)\<rparr>) [473352 .. 473399]"

definition table_known :: "temp_row list" where
  "table_known =
     [\<lparr>datetime = 473352, temp = Some 10\<rparr>, \<lparr>datetime = 473353, temp = Some 12\<rparr>,
      \<lparr>datetime = 473376, temp = Some 20\<rparr>]"

definition night_row :: ghi_row where
  "night_row =
     \<lparr>datetime = 473376, temp = Some 10, Month = 1, Hour = 0, Day = 2, Year = 2024,
      max_temp = Some 20, min_temp = Some 10, avg_temp = Some 15, temp_diff = Some 10,
      ghi_forecasted = - 5\<rparr>"

text \<open>
  Collaborators of a run in New York whose forecast request fails: the geocoder answers
  "USA", the feed returns no sample, the ceiling lookup falls back to 1000.
\<close>

definition offline_env :: collaborators where
  "offline_env =
     \<lparr>fetch_location_details = (\<lambda>lat lon. ''USA''),
      fetch_weather_forecast = (\<lambda>lat lon api_key. []),
      gbm_predict = (\<lambda>features. 0),
      calculate_max_ghi = (\<lambda>lat lon. 1000)\<rparr>"

section \<open>The tilt rule\<close>

text \<open>
  C7. For every latitude and day of the year the tilt is the latitude on days 79 to 263,
  the latitude plus 15 on days from 356 and on days up to 79 that the first range does not
  take (so day 79 gives the latitude), and \<open>max (latitude - 15) 0\<close> on every other day.
\<close>

theorem optimal_angle_branches:
  "optimal_angle lat d =
     (if 79 \<le> d \<and> d \<le> 263 then lat
      else if 356 \<le> d \<or> d \<le> 79 then lat + 15
      else max (lat - 15) 0)
   \<and> optimal_angle lat 79 = lat"
  by (simp add: optimal_angle_def)

section \<open>Filling a column: lengths, known and missing values\<close>

lemma length_interp_gap: "length (interp_gap a n xs) = n + length xs"
  by (induction a n xs rule: interp_gap.induct) auto

lemma length_interpolate_linear: "length (interpolate_linear xs) = length xs"
  by (induction xs rule: interpolate_linear.induct) (auto simp: length_interp_gap)

lemma length_bfill: "length (bfill xs) = length xs"
  by (induction xs rule: bfill.induct) (auto split: list.splits)

lemma length_ffill_from: "length (ffill_from p xs) = length xs"
  by (induction p xs rule: ffill_from.induct) auto

lemma length_ffill: "length (ffill xs) = length xs"
  by (simp add: ffill_def length_ffill_from)

lemma interp_gap_known: "None \<notin> set xs \<Longrightarrow> interp_gap a 0 xs = xs"
proof (induction xs arbitrary: a)
  case Nil
  then show ?case by simp
next
  case (Cons x xs)
  then show ?case by (cases x) auto
qed

lemma interpolate_linear_known: "None \<notin> set xs \<Longrightarrow> interpolate_linear xs = xs"
  by (cases xs rule: interpolate_linear.cases) (auto simp: interp_gap_known)

lemma bfill_known: "None \<notin> set xs \<Longrightarrow> bfill xs = xs"
  by (induction xs rule: bfill.induct) auto

lemma ffill_from_known: "None \<notin> set xs \<Longrightarrow> ffill_from p xs = xs"
  by (induction p xs rule: ffill_from.induct) auto

lemma interpolate_linear_missing: "set xs \<subseteq> {None} \<Longrightarrow> interpolate_linear xs = xs"
  by (induction xs rule: interpolate_linear.induct) auto

lemma bfill_missing: "set xs \<subseteq> {None} \<Longrightarrow> bfill xs = xs"
  by (induction xs rule: bfill.induct) (auto split: list.splits)

lemma ffill_missing: "set xs \<subseteq> {None} \<Longrightarrow> ffill_from None xs = xs"
  by (induction xs) auto

lemma interpolate_linear_keeps_one:
  "Some v \<in> set xs \<Longrightarrow> \<exists>w. Some w \<in> set (interpolate_linear xs)"
  by (induction xs rule: interpolate_linear.induct) auto

lemma bfill_head: "Some v \<in> set xs \<Longrightarrow> \<exists>a ys. bfill xs = Some a # ys"
  by (induction xs rule: bfill.induct) auto

lemma ffill_from_full: "p \<noteq> None \<Longrightarrow> None \<notin> set (ffill_from p xs)"
  by (induction p xs rule: ffill_from.induct) auto

lemma fill_column_full:
  assumes "Some v \<in> set xs"
  shows "None \<notin> set (ffill (bfill (interpolate_linear xs)))"
proof -
  obtain w where "Some w \<in> set (interpolate_linear xs)"
    using interpolate_linear_keeps_one [OF assms] by blast
  then obtain a ys where "bfill (interpolate_linear xs) = Some a # ys"
    using bfill_head by blast
  then show ?thesis
    using ffill_from_full [of "Some a" ys] by (simp add: ffill_def)
qed

lemma fill_column_known:
  "None \<notin> set xs \<Longrightarrow> ffill (bfill (interpolate_linear xs)) = xs"
  by (simp add: ffill_def interpolate_linear_known bfill_known ffill_from_known)

lemma fill_column_missing:
  "set xs \<subseteq> {None} \<Longrightarrow> ffill (bfill (interpolate_linear xs)) = xs"
  by (simp add: ffill_def interpolate_linear_missing bfill_missing ffill_missing)

lemma length_fill_column: "length (ffill (bfill (interpolate_linear xs))) = length xs"
  by (simp add: length_ffill length_bfill length_interpolate_linear)

lemma datetime_set_temp:
  "length vs = length df \<Longrightarrow> map datetime (set_temp df vs) = map datetime df"
  unfolding set_temp_def by (induction df vs rule: list_induct2') auto

lemma temp_set_temp:
  "length vs = length df \<Longrightarrow> map temp (set_temp df vs) = vs"
  unfolding set_temp_def by (induction df vs rule: list_induct2') auto

lemma set_temp_same: "set_temp df (map temp df) = df"
  unfolding set_temp_def by (induction df) auto

lemma datetime_fill_hourly_data: "map datetime (fill_hourly_data df) = map datetime df"
  by (simp add: fill_hourly_data_def datetime_set_temp length_fill_column)

lemma temp_fill_hourly_data:
  "map temp (fill_hourly_data df) = ffill (bfill (interpolate_linear (map temp df)))"
  by (simp add: fill_hourly_data_def temp_set_temp length_fill_column)

lemma fill_hourly_data_known:
  "\<forall>r\<in>set df. temp r \<noteq> None \<Longrightarrow> fill_hourly_data df = df"
proof -
  assume "\<forall>r\<in>set df. temp r \<noteq> None"
  then have "None \<notin> set (map temp df)" by auto
  then show ?thesis
    by (simp add: fill_hourly_data_def fill_column_known set_temp_same)
qed

lemma fill_hourly_data_missing:
  "\<forall>r\<in>set df. temp r = None \<Longrightarrow> fill_hourly_data df = df"
proof -
  assume "\<forall>r\<in>set df. temp r = None"
  then have "set (map temp df) \<subseteq> {None}" by auto
  then show ?thesis
    by (simp add: fill_hourly_data_def fill_column_missing set_temp_same)
qed

lemma fill_hourly_data_full:
  assumes "r \<in> set df" "temp r \<noteq> None"
  shows "\<forall>q\<in>set (fill_hourly_data df). temp q \<noteq> None"
proof -
  from assms obtain v where "Some v \<in> set (map temp df)" by force
  then have "None \<notin> set (ffill (bfill (interpolate_linear (map temp df))))"
    by (rule fill_column_full)
  then have "None \<notin> set (map temp (fill_hourly_data df))"
    by (simp add: temp_fill_hourly_data)
  then show ?thesis by force
qed

section \<open>Calendar arithmetic and integer ranges\<close>

lemma midnight_le: "midnight t \<le> t"
  by (simp add: midnight_def)

lemma midnight_gt: "t < midnight t + 24"
  by (simp add: midnight_def)

lemma midnight_add_192: "midnight (t + 192) = midnight t + 192"
proof -
  have "(t + 24 * 8) div 24 = 8 + t div 24"
    by (rule div_mult_self2) simp
  then show ?thesis by (simp add: midnight_def)
qed

lemma midnight_hour: "t = midnight t + dt_hour t"
  by (simp add: midnight_def dt_hour_def)

lemma dt_hour_range: "dt_hour t \<in> {0..23}"
  by (simp add: dt_hour_def)

lemma filter_upto_less: "j < c \<Longrightarrow> filter (\<lambda>t. t < c) [i..j] = [i..j]"
  by (simp add: filter_id_conv)

lemma filter_upto_not_less: "c \<le> i \<Longrightarrow> filter (\<lambda>t. t < c) [i..j] = []"
  by (simp add: filter_empty_conv)

lemma upto_cut:
  assumes "i \<le> c" "c \<le> j + 1"
  shows "[i..j] = [i..c - 1] @ [c..j]"
proof (cases "c \<le> j")
  case True
  with assms(1) show ?thesis by (rule upto_split1)
next
  case False
  with assms have "c = j + 1" by simp
  then show ?thesis by simp
qed

lemma filter_upto_before:
  assumes "i \<le> c" "c \<le> j + 1"
  shows "filter (\<lambda>t. t < c) [i..j] = [i..c - 1]"
  by (simp add: upto_cut [OF assms] filter_upto_less filter_upto_not_less)

lemma filter_upto_from:
  assumes "i \<le> c" "c \<le> j + 1"
  shows "filter (\<lambda>t. c \<le> t) [i..j] = [c..j]"
proof -
  have "filter (\<lambda>t. c \<le> t) [i..c - 1] = []"
    by (simp add: filter_empty_conv)
  moreover have "filter (\<lambda>t. c \<le> t) [c..j] = [c..j]"
    by (simp add: filter_id_conv)
  ultimately show ?thesis by (simp add: upto_cut [OF assms])
qed

section \<open>The hourly table of the samples and the 8-day grid\<close>

lemma datetime_resample:
  "map datetime (resample_H_interpolate wfd)
     = [Min (set (map dt_txt wfd)) .. Max (set (map dt_txt wfd))]"
proof -
  have "map datetime (map2 (\<lambda>t v. \<lparr>datetime = t, temp = v\<rparr>) idx vs) = idx"
    if "length vs = length idx" for idx :: "int list" and vs :: "real option list"
    using that by (induction idx vs rule: list_induct2') auto
  then show ?thesis
    by (simp add: resample_H_interpolate_def Let_def length_interpolate_linear)
qed

lemma datetime_local_hourly_df:
  "map datetime (local_hourly_df wfd)
     = map (\<lambda>t. t - 5) [Min (set (map dt_txt wfd)) .. Max (set (map dt_txt wfd))]"
proof -
  have "map datetime (local_hourly_df wfd)
          = map (\<lambda>t. t - 5) (map datetime (resample_H_interpolate wfd))"
    by (simp add: local_hourly_df_def comp_def)
  then show ?thesis by (simp only: datetime_resample)
qed

lemma start_date_local_hourly_df:
  assumes "wfd \<noteq> []"
  shows "Min (set (map datetime (local_hourly_df wfd))) = Min (set (map dt_txt wfd)) - 5"
proof -
  let ?lo = "Min (set (map dt_txt wfd))" and ?hi = "Max (set (map dt_txt wfd))"
  from assms obtain x where x: "x \<in> set (map dt_txt wfd)" by (cases wfd) auto
  have "?lo \<le> x" "x \<le> ?hi" using x by (simp_all del: set_map)
  then have "?lo \<le> ?hi" by linarith
  then have "Min ((\<lambda>t. t - 5) ` {?lo..?hi}) = ?lo - 5"
    by (intro Min_eqI) auto
  then show ?thesis
    by (simp only: datetime_local_hourly_df set_map set_upto)
qed

lemma datetime_reindex: "map datetime (reindex df idx) = idx"
  by (simp add: reindex_def comp_def)

lemma datetime_forecast_df_full:
  "map datetime (forecast_df_full hourly)
     = [Min (set (map datetime hourly)) .. midnight (Min (set (map datetime hourly))) + 191]"
proof -
  let ?s = "Min (set (map datetime hourly))"
  have "map datetime (forecast_df_full hourly)
          = filter (\<lambda>t. t < midnight (?s + 192)) (map datetime (reindex hourly (full_range ?s)))"
    by (simp add: forecast_df_full_def Let_def filter_map comp_def)
  also have "\<dots> = filter (\<lambda>t. t < midnight ?s + 192) [?s .. ?s + 192]"
    by (simp only: datetime_reindex full_range_def midnight_add_192)
  also have "\<dots> = [?s .. midnight ?s + 192 - 1]"
    using midnight_le [of ?s] midnight_gt [of ?s] by (intro filter_upto_before) auto
  finally show ?thesis by (simp add: add.commute)
qed

lemma grid_stamps:
  assumes "wfd \<noteq> []"
  shows "map datetime (forecast_df_full (local_hourly_df wfd))
           = [Min (set (map dt_txt wfd)) - 5 .. midnight (Min (set (map dt_txt wfd)) - 5) + 191]"
  by (simp only: datetime_forecast_df_full start_date_local_hourly_df [OF assms])

section \<open>Example inputs: earliest timestamps\<close>

lemma samples_two_days_start: "Min (set (map dt_txt samples_two_days)) = 473352"
  by (simp add: samples_two_days_def)

lemma samples_two_days_start_image: "Min (dt_txt ` set samples_two_days) = 473352"
  by (simp add: samples_two_days_def)

section \<open>The grid\<close>

text \<open>
  C1, as amended. For every non-empty sample sequence, the grid built by lines 53-58 is the
  run of consecutive hours from \<open>start\<close>, the earliest sample timestamp moved by -5 hours,
  up to but excluding midnight of the calendar day of \<open>start + 8 days\<close>: strictly
  increasing, without duplicate or skipped hour, and of \<open>192 - h\<close> timestamps, where \<open>h\<close> is
  the hour of day of \<open>start\<close>. It has 192 timestamps only when \<open>start\<close> is a midnight.
\<close>

theorem grid_builder_stamps:
  assumes "wfd \<noteq> []"
  shows "map datetime (forecast_df_full (local_hourly_df wfd))
           = [Min (set (map dt_txt wfd)) - 5 .. midnight (Min (set (map dt_txt wfd)) - 5) + 191]
         \<and> length (forecast_df_full (local_hourly_df wfd))
           = 192 - nat (dt_hour (Min (set (map dt_txt wfd)) - 5))
         \<and> sorted_wrt (<) (map datetime (forecast_df_full (local_hourly_df wfd)))"
proof -
  let ?s = "Min (set (map dt_txt wfd)) - 5"
  let ?g = "map datetime (forecast_df_full (local_hourly_df wfd))"
  have g: "?g = [?s .. midnight ?s + 191]"
    using assms by (rule grid_stamps)
  have "length ?g = nat (midnight ?s + 191 - ?s + 1)"
    by (simp only: g length_upto)
  also have "\<dots> = 192 - nat (dt_hour ?s)"
    using midnight_hour [of ?s] dt_hour_range [of ?s] by (simp del: set_map) arith
  finally have "length (forecast_df_full (local_hourly_df wfd)) = 192 - nat (dt_hour ?s)"
    by simp
  moreover have "sorted_wrt (<) ?g"
    by (simp only: g sorted_wrt_upto)
  ultimately show ?thesis using g by simp
qed

text \<open>The amended C1 at two days of samples from 2024-01-01 00:00 UTC: 173 timestamps.\<close>

theorem grid_builder_stamps_witness:
  "samples_two_days \<noteq> []
   \<and> map datetime (forecast_df_full (local_hourly_df samples_two_days)) = [473347 .. 473519]
   \<and> length (forecast_df_full (local_hourly_df samples_two_days)) = 173"
proof -
  have ne: "samples_two_days \<noteq> []" by (simp add: samples_two_days_def)
  show ?thesis
    using ne grid_builder_stamps [OF ne]
    by (simp add: samples_two_days_start_image midnight_def dt_hour_def)
qed

text \<open>
  C1 as stated fails there: the samples are sorted and span two days, \<open>start\<close> is 19:00,
  and the grid has 173 timestamps, not 192.
\<close>

theorem grid_builder_192_counterexample:
  "samples_two_days \<noteq> []
   \<and> sorted (map dt_txt samples_two_days)
   \<and> last (map dt_txt samples_two_days) - hd (map dt_txt samples_two_days) \<ge> 24
   \<and> length (forecast_df_full (local_hourly_df samples_two_days)) \<noteq> 8 * 24"
proof -
  have ne: "samples_two_days \<noteq> []" by (simp add: samples_two_days_def)
  have "length (map datetime (forecast_df_full (local_hourly_df samples_two_days))) = 173"
    by (simp only: grid_stamps [OF ne] length_upto samples_two_days_start)
       (simp add: midnight_def)
  then show ?thesis by (simp add: samples_two_days_def)
qed

section \<open>Tilt values\<close>

text \<open>
  C6. The rule at the four test points of the specification. Day 200 lies in the first
  range, so the rule returns the latitude there: 40 and 5, where the claim has 25 and 0.
\<close>

theorem optimal_angle_test_values:
  "optimal_angle 40 80 = 40 \<and> optimal_angle 40 1 = 55
   \<and> optimal_angle 40 200 = 40 \<and> optimal_angle 5 200 = 5"
  by (simp add: optimal_angle_def)

section \<open>Scaling to power\<close>

lemma clamp_power_max: "clamp_power x = max 0 x"
  by (simp add: clamp_power_def max_def)

lemma hourly_row_eta:
  "\<lparr>datetime = datetime r, temp = temp r,
    Month = Month r, Hour = Hour r, Day = Day r, Year = Year r,
    max_temp = max_temp r, min_temp = min_temp r, avg_temp = avg_temp r,
    temp_diff = temp_diff r\<rparr> = (r::hourly_row)"
  by (cases r) simp

lemma ghi_row_eta:
  "\<lparr>datetime = datetime r, temp = temp r,
    Month = Month r, Hour = Hour r, Day = Day r, Year = Year r,
    max_temp = max_temp r, min_temp = min_temp r, avg_temp = avg_temp r,
    temp_diff = temp_diff r, ghi_forecasted = ghi_forecasted r\<rparr> = (r::ghi_row)"
  by (cases r) simp

lemma power_rows:
  assumes "calculate_power_generation df capacity max_ghi = Inr out"
  shows "map power out = map (\<lambda>r. clamp_power (ghi_forecasted r * (capacity / max_ghi))) df"
    and "map ghi_forecasted out = map ghi_forecasted df"
    and "map ghi_row.truncate out = df"
  using assms
  by (auto simp: calculate_power_generation_def Let_def comp_def ghi_row.truncate_def
                 ghi_row_eta split: if_splits)

text \<open>
  C8, as amended. After calculate_power_generation, the power of every row is
  \<open>max 0 (irradiance * ratio)\<close> with \<open>ratio = capacity / ceiling\<close>, hence never negative; and
  when the ratio is not negative, the power is 0 on every row whose forecasted irradiance
  is negative.
\<close>

theorem power_clamped:
  assumes "calculate_power_generation df capacity max_ghi = Inr out"
  shows "(\<forall>r\<in>set out. power r = max 0 (ghi_forecasted r * (capacity / max_ghi)) \<and> power r \<ge> 0)
         \<and> (capacity / max_ghi \<ge> 0 \<longrightarrow> (\<forall>r\<in>set out. ghi_forecasted r < 0 \<longrightarrow> power r = 0))"
proof -
  have out: "out = map (\<lambda>r. \<lparr>datetime = datetime r, temp = temp r,
                          Month = Month r, Hour = Hour r, Day = Day r, Year = Year r,
                          max_temp = max_temp r, min_temp = min_temp r, avg_temp = avg_temp r,
                          temp_diff = temp_diff r,
                          ghi_forecasted = ghi_forecasted r,
                          power = clamp_power (ghi_forecasted r * (capacity / max_ghi))\<rparr>) df"
    using assms by (auto simp: calculate_power_generation_def Let_def split: if_splits)
  have row: "power r = max 0 (ghi_forecasted r * (capacity / max_ghi))" if "r \<in> set out" for r
    using that by (auto simp: out clamp_power_max)
  have neg: "power r = 0"
    if "r \<in> set out" "capacity / max_ghi \<ge> 0" "ghi_forecasted r < 0" for r
  proof -
    have "ghi_forecasted r * (capacity / max_ghi) \<le> 0"
      by (rule mult_nonpos_nonneg) (use that(2,3) in simp_all)
    then show ?thesis using row [OF that(1)] by simp
  qed
  show ?thesis using row neg by auto
qed

text \<open>The amended C8 on one night row, with capacity 100 and ceiling 1000.\<close>

theorem power_clamped_witness:
  "calculate_power_generation [night_row] 100 1000
     = Inr [ghi_row.extend night_row (power_row.fields 0)]
   \<and> (100::real) / 1000 \<ge> 0
   \<and> ghi_forecasted (ghi_row.extend night_row (power_row.fields 0)) < 0
   \<and> power (ghi_row.extend night_row (power_row.fields 0)) = 0"
proof -
  have run: "calculate_power_generation [night_row] 100 1000
               = Inr [ghi_row.extend night_row (power_row.fields 0)]"
    by (simp add: calculate_power_generation_def night_row_def clamp_power_def
                  ghi_row.extend_def power_row.fields_def)
  show ?thesis
    using run power_clamped [OF run]
    by (simp add: night_row_def ghi_row.extend_def power_row.fields_def)
qed

text \<open>
  C8 as stated fails for a negative capacity: the irradiance of the row is negative and its
  power is 1/2.
\<close>

theorem power_negative_irradiance_counterexample:
  "calculate_power_generation [night_row] (- 100) 1000
     = Inr [ghi_row.extend night_row (power_row.fields (1 / 2))]
   \<and> ghi_forecasted (ghi_row.extend night_row (power_row.fields (1 / 2))) < 0
   \<and> power (ghi_row.extend night_row (power_row.fields (1 / 2))) \<noteq> 0"
  by (simp add: calculate_power_generation_def night_row_def clamp_power_def
                ghi_row.extend_def power_row.fields_def)

section \<open>Frames\<close>

text \<open>
  C10. predict_ghi and calculate_power_generation only add a column: the returned table
  without the added column is the table received, row for row and in the same order.
\<close>

theorem added_columns_frame:
  "map hourly_row.truncate (predict_ghi gbm df) = df
   \<and> (calculate_power_generation g capacity max_ghi = Inr out \<longrightarrow> map ghi_row.truncate out = g)"
proof -
  have "map hourly_row.truncate (predict_ghi gbm df) = df"
    by (simp add: predict_ghi_def comp_def hourly_row.truncate_def hourly_row_eta)
  then show ?thesis using power_rows(3) by blast
qed

theorem added_columns_frame_witness:
  "calculate_power_generation [night_row] 100 1000
     = Inr [ghi_row.extend night_row (power_row.fields 0)]
   \<and> map ghi_row.truncate [ghi_row.extend night_row (power_row.fields 0)] = [night_row]"
proof -
  have run: "calculate_power_generation [night_row] 100 1000
               = Inr [ghi_row.extend night_row (power_row.fields 0)]"
    by (simp add: calculate_power_generation_def night_row_def clamp_power_def
                  ghi_row.extend_def power_row.fields_def)
  show ?thesis
    using run added_columns_frame [of "\<lambda>f. 0" "[]" "[night_row]" 100 1000
                                      "[ghi_row.extend night_row (power_row.fields 0)]"]
    by simp
qed

section \<open>Empty input\<close>

text \<open>
  C5. On an empty sample sequence prepare_weather_data fails with InputError, and so does
  the pipeline once the region is accepted: no grid is built and no result is returned.
\<close>

theorem empty_samples_input_error:
  "prepare_weather_data [] = Inl InputError
   \<and> (fetch_location_details env lat lon \<in> set [''USA'', ''United States'', ''United States of America'']
        \<longrightarrow> fetch_weather_forecast env lat lon api_key = []
        \<longrightarrow> solar_power_forecast env lat lon plant_capacity api_key = Inl InputError)"
  by (simp add: prepare_weather_data_def solar_power_forecast_def Let_def)

text \<open>C5 on a run in New York whose forecast request returns no sample.\<close>

theorem empty_samples_input_error_witness:
  "fetch_location_details offline_env (40.7128) (- 74.006)
     \<in> set [''USA'', ''United States'', ''United States of America'']
   \<and> fetch_weather_forecast offline_env (40.7128) (- 74.006) [] = []
   \<and> solar_power_forecast offline_env (40.7128) (- 74.006) 100 [] = Inl InputError"
  using empty_samples_input_error [of offline_env "40.7128" "- 74.006" "[]" 100]
  by (simp add: offline_env_def)

section \<open>The hourly buckets and the sort\<close>

lemma mset_bucket_split:
  "h \<notin> set hs \<Longrightarrow>
   mset (filter (\<lambda>r. g r = h) df) + mset (filter (\<lambda>r. g r \<in> set hs) df)
     = mset (filter (\<lambda>r. g r = h \<or> g r \<in> set hs) df)"
  by (induction df) auto

lemma mset_concat_buckets:
  "distinct hs \<Longrightarrow>
   mset (concat (map (\<lambda>h. filter (\<lambda>r. g r = h) df) hs)) = mset (filter (\<lambda>r. g r \<in> set hs) df)"
proof (induction hs)
  case Nil
  then show ?case by simp
next
  case (Cons h hs)
  then have "mset (concat (map (\<lambda>h. filter (\<lambda>r. g r = h) df) (h # hs)))
               = mset (filter (\<lambda>r. g r = h) df) + mset (filter (\<lambda>r. g r \<in> set hs) df)"
    by simp
  also have "\<dots> = mset (filter (\<lambda>r. g r = h \<or> g r \<in> set hs) df)"
    using Cons.prems by (intro mset_bucket_split) simp
  finally show ?case by simp
qed

lemma mset_hour_buckets:
  "mset (concat (map (\<lambda>hour. filter (\<lambda>r. dt_hour (datetime r) = hour) df) [0..23])) = mset df"
proof -
  have "mset (concat (map (\<lambda>hour. filter (\<lambda>r. dt_hour (datetime r) = hour) df) [0..23]))
          = mset (filter (\<lambda>r. dt_hour (datetime r) \<in> set [0..23]) df)"
    by (rule mset_concat_buckets) simp
  also have "filter (\<lambda>r. dt_hour (datetime r) \<in> set [0..23]) df = df"
    using dt_hour_range by (simp only: set_upto filter_id_conv) blast
  finally show ?thesis .
qed

lemma datetime_filled_buckets:
  "map datetime (concat (map (\<lambda>hour. fill_hourly_data (filter (P hour) df)) hs))
     = map datetime (concat (map (\<lambda>hour. filter (P hour) df) hs))"
  by (induction hs) (simp_all add: datetime_fill_hourly_data)

lemma datetime_interpolated_df:
  "map datetime (interpolated_df df) = sort (map datetime df)"
proof -
  let ?C = "concat (map (\<lambda>hour. fill_hourly_data (filter (\<lambda>r. dt_hour (datetime r) = hour) df))
                        [0..23])"
  have "mset (map datetime ?C)
          = mset (map datetime
                   (concat (map (\<lambda>hour. filter (\<lambda>r. dt_hour (datetime r) = hour) df) [0..23])))"
    by (simp only: datetime_filled_buckets)
  also have "\<dots> = mset (map datetime df)"
    by (simp only: mset_map mset_hour_buckets)
  finally have perm: "mset (map datetime ?C) = mset (map datetime df)" .
  have "sort (map datetime df) = map datetime (sort_key datetime ?C)"
  proof (rule properties_for_sort)
    show "mset (map datetime (sort_key datetime ?C)) = mset (map datetime df)"
      using perm by simp
    show "sorted (map datetime (sort_key datetime ?C))"
      by (rule sorted_sort_key)
  qed
  then show ?thesis by (simp add: interpolated_df_def)
qed

lemma datetime_interpolated_df_sorted:
  "sorted (map datetime df) \<Longrightarrow> map datetime (interpolated_df df) = map datetime df"
  by (simp add: datetime_interpolated_df sorted_sort_id)

lemma filter_key_single:
  "distinct (map f xs) \<Longrightarrow> k \<in> set xs \<Longrightarrow> filter (\<lambda>x. f k = f x) xs = [k]"
proof (induction xs)
  case Nil
  then show ?case by simp
next
  case (Cons x xs)
  show ?case
  proof (cases "x = k")
    case True
    with Cons.prems have "\<forall>y\<in>set xs. f k \<noteq> f y" by auto
    then have "filter (\<lambda>x. f k = f x) xs = []" by (simp add: filter_empty_conv)
    with True show ?thesis by simp
  next
    case False
    with Cons.prems have kxs: "k \<in> set xs" by simp
    then have "f k \<in> f ` set xs" by (rule imageI)
    moreover have "f x \<notin> f ` set xs" using Cons.prems(1) by simp
    ultimately have "f k \<noteq> f x" by metis
    note kxs this
    with Cons show ?thesis by simp
  qed
qed

lemma sort_key_buckets:
  assumes "sorted_wrt (<) (map datetime df)"
  shows "sort_key datetime
           (concat (map (\<lambda>hour. filter (\<lambda>r. dt_hour (datetime r) = hour) df) [0..23])) = df"
proof (rule properties_for_sort_key)
  let ?C = "concat (map (\<lambda>hour. filter (\<lambda>r. dt_hour (datetime r) = hour) df) [0..23])"
  have perm: "mset ?C = mset df" by (rule mset_hour_buckets)
  show "mset df = mset ?C" using perm by simp
  have d: "distinct (map datetime df)" and s: "sorted (map datetime df)"
    using assms by (simp_all add: strict_sorted_iff)
  show "sorted (map datetime df)" by (rule s)
  have "mset (map datetime ?C) = mset (map datetime df)"
    using perm by simp
  then have dC: "distinct (map datetime ?C)"
    using d mset_eq_imp_distinct_iff by blast
  fix k assume k: "k \<in> set df"
  then have kC: "k \<in> set ?C" using perm mset_eq_setD by blast
  show "filter (\<lambda>x. datetime k = datetime x) df = filter (\<lambda>x. datetime k = datetime x) ?C"
    by (simp only: filter_key_single [OF d k] filter_key_single [OF dC kC])
qed

lemma set_interpolated_df:
  "set (interpolated_df df)
     = (\<Union>hour\<in>{0..23}. set (fill_hourly_data (filter (\<lambda>r. dt_hour (datetime r) = hour) df)))"
  by (simp add: interpolated_df_def)

lemma hour_of_filled_bucket:
  assumes "q \<in> set (fill_hourly_data (filter (\<lambda>r. dt_hour (datetime r) = hour) df))"
  shows "dt_hour (datetime q) = hour"
proof -
  have "datetime q \<in> set (map datetime (fill_hourly_data (filter (\<lambda>r. dt_hour (datetime r) = hour) df)))"
    using assms by simp
  then have "datetime q \<in> set (map datetime (filter (\<lambda>r. dt_hour (datetime r) = hour) df))"
    by (simp only: datetime_fill_hourly_data)
  then show ?thesis by auto
qed

section \<open>The interpolation pass\<close>

text \<open>
  C9. On a table whose timestamps are strictly increasing and whose temperatures are all
  known, the per-hour interpolate/bfill/ffill pass with its final sort returns the table
  unchanged: same rows, same temperatures, same order.
\<close>

theorem interpolated_df_idempotent:
  assumes "sorted_wrt (<) (map datetime df)" and "None \<notin> set (map temp df)"
  shows "interpolated_df df = df"
proof -
  have "fill_hourly_data (filter (\<lambda>r. dt_hour (datetime r) = hour) df)
          = filter (\<lambda>r. dt_hour (datetime r) = hour) df" for hour
    using assms(2) by (intro fill_hourly_data_known) force
  then have "interpolated_df df
               = sort_key datetime
                   (concat (map (\<lambda>hour. filter (\<lambda>r. dt_hour (datetime r) = hour) df) [0..23]))"
    by (simp only: interpolated_df_def)
  also have "\<dots> = df"
    using assms(1) by (rule sort_key_buckets)
  finally show ?thesis .
qed

text \<open>C9 on three rows with known temperatures.\<close>

theorem interpolated_df_idempotent_witness:
  "sorted_wrt (<) (map datetime table_known) \<and> None \<notin> set (map temp table_known)
   \<and> interpolated_df table_known = table_known"
proof -
  have s: "sorted_wrt (<) (map datetime table_known)"
    and k: "None \<notin> set (map temp table_known)"
    by (simp_all add: table_known_def)
  show ?thesis
    using s k interpolated_df_idempotent [OF s k] by simp
qed

text \<open>
  C4. When each of the 24 hour-of-day buckets of a table holds at least one known
  temperature, the pass leaves no temperature missing, on any of the rows of the table.
\<close>

theorem interpolated_df_full:
  assumes "\<forall>hour\<in>{0..23}. \<exists>r\<in>set df. dt_hour (datetime r) = hour \<and> temp r \<noteq> None"
  shows "(\<forall>q\<in>set (interpolated_df df). temp q \<noteq> None)
         \<and> length (interpolated_df df) = length df"
proof -
  have "temp q \<noteq> None" if "q \<in> set (interpolated_df df)" for q
  proof -
    from that obtain hour where hour: "hour \<in> {0..23}"
      and q: "q \<in> set (fill_hourly_data (filter (\<lambda>r. dt_hour (datetime r) = hour) df))"
      by (auto simp: set_interpolated_df)
    from assms hour obtain r where "r \<in> set df" "dt_hour (datetime r) = hour" "temp r \<noteq> None"
      by blast
    then have "r \<in> set (filter (\<lambda>r. dt_hour (datetime r) = hour) df)" by simp
    from fill_hourly_data_full [OF this \<open>temp r \<noteq> None\<close>] q show ?thesis by blast
  qed
  moreover have "length (map datetime (interpolated_df df)) = length (sort (map datetime df))"
    by (simp only: datetime_interpolated_df)
  ultimately show ?thesis by simp
qed

text \<open>
  C4 on two days of rows of which the second day is missing: hour \<open>h\<close> is known at
  timestamp \<open>473352 + h\<close>, and the 48 rows come out without a missing temperature.
\<close>

theorem interpolated_df_full_witness:
  "None \<notin> set (map temp (interpolated_df table_two_days))
   \<and> length (interpolated_df table_two_days) = 48"
proof -
  have "\<exists>r\<in>set table_two_days. dt_hour (datetime r) = hour \<and> temp r \<noteq> None"
    if "hour \<in> {0..23}" for hour
  proof
    let ?f = "\<lambda>t. \<lparr>datetime = t, temp = (if t < 473376 then Some 10 else None)\<rparr>"
    have "473352 + hour \<in> {473352..473399}"
      using that by (simp only: atLeastAtMost_iff) arith
    then have "473352 + hour \<in> set [473352..473399]"
      by (simp only: set_upto)
    then have "?f (473352 + hour) \<in> set (map ?f [473352..473399])"
      by (simp only: set_map) (rule imageI)
    then show "?f (473352 + hour) \<in> set table_two_days"
      by (simp only: table_two_days_def)
    have "(hour + 24 * 19723) mod 24 = hour mod 24"
      by (rule mod_mult_self2)
    moreover have "hour mod 24 = hour"
      using that by simp
    ultimately have "(473352 + hour) mod 24 = hour"
      by (simp add: add.commute)
    then show "dt_hour (datetime (?f (473352 + hour))) = hour \<and> temp (?f (473352 + hour)) \<noteq> None"
      using that by (simp add: dt_hour_def)
  qed
  then have "\<forall>hour\<in>{0..23}. \<exists>r\<in>set table_two_days. dt_hour (datetime r) = hour \<and> temp r \<noteq> None"
    by blast
  from interpolated_df_full [OF this]
  have known: "\<forall>q\<in>set (interpolated_df table_two_days). temp q \<noteq> None"
    and len: "length (interpolated_df table_two_days) = length table_two_days"
    by blast+
  have "length table_two_days = 48"
    by (simp add: table_two_days_def)
  with len have "length (interpolated_df table_two_days) = 48" by simp
  moreover from known have "None \<notin> set (map temp (interpolated_df table_two_days))"
    by force
  ultimately show ?thesis by blast
qed

section \<open>Daily statistics and the join\<close>

lemma filter_eq_single: "distinct ks \<Longrightarrow> k \<in> set ks \<Longrightarrow> filter (\<lambda>x. x = k) ks = [k]"
proof (induction ks)
  case Nil
  then show ?case by simp
next
  case (Cons x ks)
  show ?case
  proof (cases "x = k")
    case True
    with Cons.prems have "k \<notin> set ks" by simp
    then have "filter (\<lambda>x. x = k) ks = []" by (auto simp: filter_empty_conv)
    with True show ?thesis by simp
  next
    case False
    with Cons show ?thesis by simp
  qed
qed

lemma daily_stats_of_day:
  assumes "r \<in> set df"
  shows "filter (\<lambda>s. fst s = day_key r) (daily_stats df)
           = [(day_key r, agg_max (day_group df (day_key r)), agg_min (day_group df (day_key r)),
               agg_mean (day_group df (day_key r)))]"
proof -
  let ?ks = "sort (remdups (map day_key df))"
  have d: "distinct ?ks" by simp
  have k: "day_key r \<in> set ?ks" using assms by simp
  have "filter (\<lambda>s. fst s = day_key r) (daily_stats df)
          = map (\<lambda>k. (k, agg_max (day_group df k), agg_min (day_group df k), agg_mean (day_group df k)))
                (filter (\<lambda>x. x = day_key r) ?ks)"
    by (simp add: daily_stats_def filter_map comp_def)
  then show ?thesis by (simp only: filter_eq_single [OF d k] list.map)
qed

lemma concat_singletons: "concat (map (\<lambda>r. [f r]) xs) = map f xs"
  by (induction xs) simp_all

lemma merge_stats_daily_stats:
  "merge_stats df (daily_stats df)
     = map (\<lambda>r. \<lparr>datetime = datetime r, temp = temp r,
                  Month = Month r, Hour = Hour r, Day = Day r, Year = Year r,
                  max_temp = agg_max (day_group df (day_key r)),
                  min_temp = agg_min (day_group df (day_key r)),
                  avg_temp = agg_mean (day_group df (day_key r))\<rparr>) df"
proof -
  have "map (\<lambda>r. map (\<lambda>(k, mx, mn, av).
                             \<lparr>datetime = datetime r, temp = temp r,
                              Month = Month r, Hour = Hour r, Day = Day r, Year = Year r,
                              max_temp = mx, min_temp = mn, avg_temp = av\<rparr>)
                          (filter (\<lambda>s. fst s = day_key r) (daily_stats df))) df
        = map (\<lambda>r. [\<lparr>datetime = datetime r, temp = temp r,
                  Month = Month r, Hour = Hour r, Day = Day r, Year = Year r,
                  max_temp = agg_max (day_group df (day_key r)),
                  min_temp = agg_min (day_group df (day_key r)),
                  avg_temp = agg_mean (day_group df (day_key r))\<rparr>]) df"
    (is "map ?A df = map (\<lambda>r. [?G r]) df")
    by (rule map_cong [OF refl]) (simp add: daily_stats_of_day)
  then have "concat (map ?A df) = concat (map (\<lambda>r. [?G r]) df)"
    by (rule arg_cong)
  also have "\<dots> = map ?G df"
    by (rule concat_singletons)
  finally show ?thesis
    by (simp only: merge_stats_def)
qed

text \<open>Timestamp, temperature and hour of the rows, through the join and the range column.\<close>

lemma merged_rows:
  "map (\<lambda>q. (datetime q, temp q, Hour q))
       (map add_temp_diff (merge_stats (map add_calendar X) (daily_stats (map add_calendar X))))
     = map (\<lambda>r. (datetime r, temp r, dt_hour (datetime r))) X"
  by (simp add: merge_stats_daily_stats comp_def add_temp_diff_def add_calendar_def)

lemma prepared_table_rows:
  "map (\<lambda>q. (datetime q, temp q, Hour q)) (prepared_table wfd)
     = filter (\<lambda>p. midnight (Min (set (map datetime (local_hourly_df wfd)))) + 24 \<le> fst p)
         (map (\<lambda>r. (datetime r, temp r, dt_hour (datetime r)))
              (interpolated_df (forecast_df_full (local_hourly_df wfd))))"
proof -
  let ?X = "interpolated_df (forecast_df_full (local_hourly_df wfd))"
  let ?M = "map add_temp_diff (merge_stats (map add_calendar ?X) (daily_stats (map add_calendar ?X)))"
  let ?c = "midnight (Min (set (map datetime (local_hourly_df wfd)))) + 24"
  have "prepared_table wfd = filter (\<lambda>r. ?c \<le> datetime r) ?M"
    by (simp add: prepared_table_def Let_def)
  then have "map (\<lambda>q. (datetime q, temp q, Hour q)) (prepared_table wfd)
               = filter (\<lambda>p. ?c \<le> fst p) (map (\<lambda>q. (datetime q, temp q, Hour q)) ?M)"
    by (simp add: filter_map comp_def)
  then show ?thesis by (simp only: merged_rows)
qed

lemma datetime_prepared_table:
  assumes "wfd \<noteq> []"
  shows "map datetime (prepared_table wfd)
           = [midnight (Min (set (map dt_txt wfd)) - 5) + 24 .. midnight (Min (set (map dt_txt wfd)) - 5) + 191]"
proof -
  let ?s = "Min (set (map dt_txt wfd)) - 5"
  let ?full = "forecast_df_full (local_hourly_df wfd)"
  have full: "map datetime ?full = [?s .. midnight ?s + 191]"
    using assms by (rule grid_stamps)
  then have "sorted (map datetime ?full)" by (simp only: sorted_upto)
  then have X: "map datetime (interpolated_df ?full) = [?s .. midnight ?s + 191]"
    using full by (simp only: datetime_interpolated_df_sorted)
  have "map datetime (prepared_table wfd)
          = map fst (map (\<lambda>q. (datetime q, temp q, Hour q)) (prepared_table wfd))"
    by (simp add: comp_def)
  also have "\<dots> = filter (\<lambda>t. midnight ?s + 24 \<le> t) (map datetime (interpolated_df ?full))"
    by (simp only: prepared_table_rows start_date_local_hourly_df [OF assms])
       (simp add: filter_map comp_def)
  also have "\<dots> = filter (\<lambda>t. midnight ?s + 24 \<le> t) [?s .. midnight ?s + 191]"
    by (simp only: X)
  also have "\<dots> = [midnight ?s + 24 .. midnight ?s + 191]"
    using midnight_le [of ?s] midnight_gt [of ?s] by (intro filter_upto_from) simp_all
  finally show ?thesis .
qed

lemma prepare_weather_data_returns:
  "wfd \<noteq> [] \<Longrightarrow> distinct (map dt_txt wfd) \<Longrightarrow> prepare_weather_data wfd = Inr (prepared_table wfd)"
  by (simp add: prepare_weather_data_def)

lemma prepare_weather_data_Inr:
  "prepare_weather_data wfd = Inr out \<Longrightarrow> wfd \<noteq> [] \<and> out = prepared_table wfd"
  by (auto simp: prepare_weather_data_def split: if_splits)

section \<open>The returned table\<close>

lemma samples_two_days_ok:
  "samples_two_days \<noteq> []" "distinct (map dt_txt samples_two_days)"
  by (simp_all add: samples_two_days_def)

lemma samples_single_ok:
  "samples_single \<noteq> []" "distinct (map dt_txt samples_single)"
  by (simp_all add: samples_single_def)

text \<open>
  C2. Whenever prepare_weather_data returns, it returns 7 * 24 = 168 rows whose timestamps
  are the consecutive hours from the midnight after the grid's start day up to the end of
  the seventh day after it, in strictly ascending order: the rows of the start day and
  anything from the eighth midnight on are gone.
\<close>

theorem prepare_weather_data_rows:
  assumes "prepare_weather_data wfd = Inr out"
  shows "length out = 7 * 24
         \<and> map datetime out
             = [midnight (Min (set (map dt_txt wfd)) - 5) + 24 ..
                midnight (Min (set (map dt_txt wfd)) - 5) + 24 + 167]
         \<and> sorted_wrt (<) (map datetime out)"
proof -
  let ?m = "midnight (Min (set (map dt_txt wfd)) - 5)"
  from assms have ne: "wfd \<noteq> []" and out: "out = prepared_table wfd"
    using prepare_weather_data_Inr by blast+
  have "?m + 24 + 167 = ?m + 191" by simp
  then have stamps: "map datetime out = [?m + 24 .. ?m + 24 + 167]"
    by (simp only: out datetime_prepared_table [OF ne])
  have "length (map datetime out) = 168"
    by (simp add: stamps)
  then have "length out = 7 * 24" by simp
  moreover have "sorted_wrt (<) (map datetime out)"
    by (simp only: stamps sorted_wrt_upto)
  ultimately show ?thesis using stamps by blast
qed

text \<open>C2 on two days of samples from 2024-01-01 00:00 UTC: the week from 2024-01-01 00:00 local.\<close>

theorem prepare_weather_data_rows_witness:
  "prepare_weather_data samples_two_days = Inr (prepared_table samples_two_days)
   \<and> length (prepared_table samples_two_days) = 168
   \<and> map datetime (prepared_table samples_two_days) = [473352 .. 473519]"
proof -
  have run: "prepare_weather_data samples_two_days = Inr (prepared_table samples_two_days)"
    using samples_two_days_ok by (rule prepare_weather_data_returns)
  have m: "midnight (Min (set (map dt_txt samples_two_days)) - 5) = 473328"
    by (simp only: samples_two_days_start) (simp add: midnight_def)
  from prepare_weather_data_rows [OF run]
  have "length (prepared_table samples_two_days) = 7 * 24"
    and "map datetime (prepared_table samples_two_days) = [473328 + 24 .. 473328 + 24 + 167]"
    by (simp_all only: m)
  moreover have "(7::nat) * 24 = 168" "(473328::int) + 24 = 473352" "(473352::int) + 167 = 473519"
    by simp_all
  ultimately have "length (prepared_table samples_two_days) = 168"
    and "map datetime (prepared_table samples_two_days) = [473352 .. 473519]"
    by (simp_all only:)
  with run show ?thesis by blast
qed

section \<open>A bucket without a known value\<close>

lemma known_in_full:
  assumes "r \<in> set (forecast_df_full hourly)" "temp r \<noteq> None"
  shows "datetime r \<in> set (map datetime hourly)"
proof -
  from assms(1) obtain t where
    r: "r = \<lparr>datetime = t,
               temp = (case map_of (map (\<lambda>r. (datetime r, temp r)) hourly) t of
                         None \<Rightarrow> None | Some v \<Rightarrow> v)\<rparr>"
    by (auto simp: forecast_df_full_def reindex_def Let_def)
  with assms(2) obtain v where "map_of (map (\<lambda>r. (datetime r, temp r)) hourly) t = Some v"
    by (auto split: option.splits)
  then have "(t, v) \<in> set (map (\<lambda>r. (datetime r, temp r)) hourly)"
    by (rule map_of_SomeD)
  then show ?thesis using r by auto
qed

lemma samples_single_hourly: "set (map datetime (local_hourly_df samples_single)) = {473347}"
proof -
  have "Min (set (map dt_txt samples_single)) = 473352" "Max (set (map dt_txt samples_single)) = 473352"
    by (simp_all add: samples_single_def)
  then have "map datetime (local_hourly_df samples_single) = map (\<lambda>t. t - 5) [473352 .. 473352]"
    by (simp only: datetime_local_hourly_df)
  then show ?thesis by simp
qed

lemma samples_single_bucket_0:
  "filter (\<lambda>r. dt_hour (datetime r) = 0 \<and> temp r \<noteq> None)
          (forecast_df_full (local_hourly_df samples_single)) = []"
proof -
  have "\<not> (dt_hour (datetime r) = 0 \<and> temp r \<noteq> None)"
    if "r \<in> set (forecast_df_full (local_hourly_df samples_single))" for r
  proof
    assume a: "dt_hour (datetime r) = 0 \<and> temp r \<noteq> None"
    with that have "datetime r \<in> set (map datetime (local_hourly_df samples_single))"
      by (intro known_in_full) simp_all
    then have "datetime r = 473347" by (simp only: samples_single_hourly) simp
    with a show False by (simp add: dt_hour_def)
  qed
  then show ?thesis by (auto simp: filter_empty_conv)
qed

text \<open>
  C3, as amended. prepare_weather_data has no check of the buckets: for every non-empty
  sample sequence with distinct timestamps it returns its 168 rows, and when an hour-of-day
  bucket of the joined grid holds no known temperature, the rows of that hour are returned
  with a missing temperature.
\<close>

theorem empty_bucket_stays_missing:
  assumes "wfd \<noteq> []" and "distinct (map dt_txt wfd)"
    and "\<forall>r\<in>set (forecast_df_full (local_hourly_df wfd)). dt_hour (datetime r) = hour \<longrightarrow> temp r = None"
  shows "prepare_weather_data wfd = Inr (prepared_table wfd)
         \<and> length (prepared_table wfd) = 168
         \<and> (\<forall>q\<in>set (prepared_table wfd). Hour q = hour \<longrightarrow> temp q = None)"
proof -
  let ?full = "forecast_df_full (local_hourly_df wfd)"
  let ?bucket = "filter (\<lambda>r. dt_hour (datetime r) = hour) ?full"
  have run: "prepare_weather_data wfd = Inr (prepared_table wfd)"
    using assms(1,2) by (rule prepare_weather_data_returns)
  have "length (map datetime (prepared_table wfd)) = 168"
    by (simp add: datetime_prepared_table [OF assms(1)])
  then have len: "length (prepared_table wfd) = 168" by simp
  have same: "fill_hourly_data ?bucket = ?bucket"
    using assms(3) by (intro fill_hourly_data_missing) simp
  have "temp q = None" if q: "q \<in> set (prepared_table wfd)" and h: "Hour q = hour" for q
  proof -
    from q have "(datetime q, temp q, Hour q)
                   \<in> set (map (\<lambda>q. (datetime q, temp q, Hour q)) (prepared_table wfd))"
      by force
    then have "(datetime q, temp q, Hour q)
                 \<in> set (map (\<lambda>r. (datetime r, temp r, dt_hour (datetime r))) (interpolated_df ?full))"
      by (simp only: prepared_table_rows set_filter) simp
    then obtain r where r: "r \<in> set (interpolated_df ?full)"
      and eq: "temp q = temp r" "Hour q = dt_hour (datetime r)"
      by auto
    from r obtain hour' where
      b: "r \<in> set (fill_hourly_data (filter (\<lambda>r. dt_hour (datetime r) = hour') ?full))"
      by (auto simp: set_interpolated_df)
    then have "dt_hour (datetime r) = hour'" by (rule hour_of_filled_bucket)
    with eq(2) h have "hour' = hour" by simp
    with b same have "r \<in> set ?bucket" by simp
    with assms(3) have "temp r = None" by simp
    with eq(1) show ?thesis by simp
  qed
  with run len show ?thesis by blast
qed

text \<open>
  The amended C3 on a single sample at 19:00 local time: bucket 0 of the grid has no known
  value, and no returned row of hour 0 has one.
\<close>

theorem empty_bucket_stays_missing_witness:
  "samples_single \<noteq> [] \<and> distinct (map dt_txt samples_single)
   \<and> filter (\<lambda>r. dt_hour (datetime r) = 0 \<and> temp r \<noteq> None)
             (forecast_df_full (local_hourly_df samples_single)) = []
   \<and> prepare_weather_data samples_single = Inr (prepared_table samples_single)
   \<and> length (prepared_table samples_single) = 168
   \<and> filter (\<lambda>q. Hour q = 0 \<and> temp q \<noteq> None) (prepared_table samples_single) = []"
proof -
  have "\<forall>r\<in>set (forecast_df_full (local_hourly_df samples_single)).
          dt_hour (datetime r) = 0 \<longrightarrow> temp r = None"
    using samples_single_bucket_0 by (auto simp: filter_empty_conv)
  from empty_bucket_stays_missing [OF samples_single_ok this]
  have "prepare_weather_data samples_single = Inr (prepared_table samples_single)"
    and "length (prepared_table samples_single) = 168"
    and "\<forall>q\<in>set (prepared_table samples_single). Hour q = 0 \<longrightarrow> temp q = None"
    by blast+
  moreover from this(3)
  have "filter (\<lambda>q. Hour q = 0 \<and> temp q \<noteq> None) (prepared_table samples_single) = []"
    by (auto simp: filter_empty_conv)
  ultimately show ?thesis
    using samples_single_ok samples_single_bucket_0 by blast
qed

text \<open>
  C3 as stated fails on that sample: bucket 0 holds no known temperature after the join,
  and prepare_weather_data returns a table, not an error.
\<close>

theorem empty_bucket_no_error_counterexample:
  "filter (\<lambda>r. dt_hour (datetime r) = 0 \<and> temp r \<noteq> None)
          (forecast_df_full (local_hourly_df samples_single)) = []
   \<and> prepare_weather_data samples_single = Inr (prepared_table samples_single)
   \<and> \<not> isl (prepare_weather_data samples_single)"
proof -
  have run: "prepare_weather_data samples_single = Inr (prepared_table samples_single)"
    using samples_single_ok by (rule prepare_weather_data_returns)
  then have "\<not> isl (prepare_weather_data samples_single)" by simp
  with run samples_single_bucket_0 show ?thesis by blast
qed

end
